theory Spec2Isabelle
  imports Main "HOL-Library.Sublist"
begin

section \<open>The agent indexer of \<^verbatim>\<open>src/core/indexer.ts\<close>\<close>

text \<open>
  A shallow embedding of the class \<^verbatim>\<open>AgentIndexer\<close>: its three operations
  \<^verbatim>\<open>getAgent\<close>, \<^verbatim>\<open>searchAgents\<close> (with the private \<^verbatim>\<open>_filterAgents\<close>) and
  \<^verbatim>\<open>searchAgentsByReputation\<close>. The subgraph client is an external collaborator: it is
  a record of functions, and every operation returns, next to its result, the list of calls it
  made to the client, in order. A rejected promise or a \<^verbatim>\<open>throw\<close> is the \<open>Inl\<close> side of a
  sum.
\<close>

subsection \<open>JavaScript values\<close>

text \<open>
  A JavaScript \<^verbatim>\<open>number\<close> as the code uses it: an integer, or \<^verbatim>\<open>NaN\<close> (what
  \<^verbatim>\<open>parseInt\<close> gives when there is nothing to parse). The code computes in doubles: on
  the safe integers, from \<open>-(2^53 - 1)\<close> to \<open>2^53 - 1\<close>, its arithmetic, \<^verbatim>\<open>parseInt\<close> and
  \<^verbatim>\<open>String\<close> are exact and are the functions below. Outside that range a double is
  rounded (and printed with an exponent from \<open>10^21\<close> on), which the functions below do not
  follow; fractions and infinities are not values of the model. The properties of the next
  cursor and of the chain id (claims C5, C6 and C7) carry the safe range as a hypothesis.
\<close>

datatype jsnum = Num int | NaN

text \<open>\<^verbatim>\<open>Number.isSafeInteger\<close>, and the numbers on which the model is the code.\<close>

definition safeInteger :: "int \<Rightarrow> bool" where
  "safeInteger i = (\<bar>i\<bar> \<le> 9007199254740991)"

fun inSafeRange :: "jsnum \<Rightarrow> bool" where
  "inSafeRange NaN = True"
| "inSafeRange (Num i) = safeInteger i"

text \<open>\<^verbatim>\<open>a + b\<close> on numbers.\<close>

fun jsadd :: "jsnum \<Rightarrow> jsnum \<Rightarrow> jsnum" where
  "jsadd (Num a) (Num b) = Num (a + b)"
| "jsadd _ _ = NaN"

text \<open>\<^verbatim>\<open>a > b\<close> on numbers: every comparison with \<^verbatim>\<open>NaN\<close> is false.\<close>

fun jsgt :: "jsnum \<Rightarrow> jsnum \<Rightarrow> bool" where
  "jsgt (Num a) (Num b) = (b < a)"
| "jsgt _ _ = False"

text \<open>\<^verbatim>\<open>a === b\<close> on numbers: \<^verbatim>\<open>NaN\<close> equals nothing, itself included.\<close>

fun jsstrict_eq :: "jsnum \<Rightarrow> jsnum \<Rightarrow> bool" where
  "jsstrict_eq (Num a) (Num b) = (a = b)"
| "jsstrict_eq _ _ = False"

text \<open>
  Strings are byte lists, the UTF-8 form of the string; characters are compared through
  their codes.
\<close>

definition isDigit :: "char \<Rightarrow> bool" where
  "isDigit c = (48 \<le> (of_char c :: nat) \<and> (of_char c :: nat) \<le> 57)"

definition digitValue :: "char \<Rightarrow> nat" where
  "digitValue c = of_char c - 48"

definition digitChar :: "nat \<Rightarrow> char" where
  "digitChar d = char_of (48 + d)"

text \<open>
  The white space and line terminators \<^verbatim>\<open>parseInt\<close> skips. In one byte: tab, line feed,
  vertical tab, form feed, carriage return and space. In two bytes: U+00A0. In three bytes:
  U+1680, U+2000 to U+200A, U+2028, U+2029, U+202F, U+205F, U+3000 and U+FEFF.
\<close>

definition isWhiteSpace :: "char \<Rightarrow> bool" where
  "isWhiteSpace c = ((of_char c :: nat) \<in> {9, 10, 11, 12, 13, 32})"

definition isWhiteSpace2 :: "char \<Rightarrow> char \<Rightarrow> bool" where
  "isWhiteSpace2 a b = ((of_char a :: nat) = 194 \<and> (of_char b :: nat) = 160)"

definition isWhiteSpace3 :: "char \<Rightarrow> char \<Rightarrow> char \<Rightarrow> bool" where
  "isWhiteSpace3 a b c =
     (((of_char a :: nat) = 225 \<and> (of_char b :: nat) = 154 \<and> (of_char c :: nat) = 128)
      \<or> ((of_char a :: nat) = 226 \<and> (of_char b :: nat) = 128
          \<and> (of_char c :: nat) \<in> {128, 129, 130, 131, 132, 133, 134, 135, 136, 137, 138,
                168, 169, 175})
      \<or> ((of_char a :: nat) = 226 \<and> (of_char b :: nat) = 129 \<and> (of_char c :: nat) = 159)
      \<or> ((of_char a :: nat) = 227 \<and> (of_char b :: nat) = 128 \<and> (of_char c :: nat) = 128)
      \<or> ((of_char a :: nat) = 239 \<and> (of_char b :: nat) = 187 \<and> (of_char c :: nat) = 191))"

text \<open>The string without its leading white space.\<close>

fun trimStart :: "string \<Rightarrow> string" where
  "trimStart (a # b # c # r) =
     (if isWhiteSpace a then trimStart (b # c # r)
      else if isWhiteSpace2 a b then trimStart (c # r)
      else if isWhiteSpace3 a b c then trimStart r
      else a # b # c # r)"
| "trimStart [a, b] =
     (if isWhiteSpace a then trimStart [b] else if isWhiteSpace2 a b then [] else [a, b])"
| "trimStart [a] = (if isWhiteSpace a then [] else [a])"
| "trimStart [] = []"

text \<open>The value of a run of decimal digits, most significant first.\<close>

definition digitsValue :: "string \<Rightarrow> nat" where
  "digitsValue ds = foldl (\<lambda>acc c. 10 * acc + digitValue c) 0 ds"

text \<open>
  \<^verbatim>\<open>parseInt(s, 10)\<close>: skip leading white space, read an optional sign, then the longest
  run of decimal digits; whatever follows is ignored; no digit at all gives \<^verbatim>\<open>NaN\<close>.
\<close>

definition parseInt :: "string \<Rightarrow> jsnum" where
  "parseInt s =
     (let t = trimStart s;
          neg = (case t of [] \<Rightarrow> False | c # _ \<Rightarrow> c = CHR ''-'');
          u = (case t of [] \<Rightarrow> [] | c # r \<Rightarrow> if c = CHR ''-'' \<or> c = CHR ''+'' then r else t);
          ds = takeWhile isDigit u
      in if ds = [] then NaN
         else if neg then Num (- int (digitsValue ds)) else Num (int (digitsValue ds)))"

text \<open>The decimal digits of a natural number.\<close>

fun decimal :: "nat \<Rightarrow> string" where
  "decimal n = (if n < 10 then [digitChar n] else decimal (n div 10) @ [digitChar (n mod 10)])"

declare decimal.simps [simp del]

text \<open>\<^verbatim>\<open>String(n)\<close> on a number.\<close>

fun String :: "jsnum \<Rightarrow> string" where
  "String NaN = ''NaN''"
| "String (Num i) = (if i < 0 then CHR ''-'' # decimal (nat (- i)) else decimal (nat i))"

text \<open>
  \<^verbatim>\<open>String.prototype.toLowerCase\<close> folds all of Unicode; its tables are not written out
  here, and the functions that call it take it as a parameter \<open>toLowerCase\<close>. On strings of
  ASCII characters it is the function \<open>asciiLowerCase\<close>, which the examples use.
\<close>

definition toLowerChar :: "char \<Rightarrow> char" where
  "toLowerChar c =
     (if 65 \<le> (of_char c :: nat) \<and> (of_char c :: nat) \<le> 90 then char_of (of_char c + 32 :: nat) else c)"

definition asciiLowerCase :: "string \<Rightarrow> string" where
  "asciiLowerCase s = map toLowerChar s"

text \<open>\<^verbatim>\<open>hay.includes(needle)\<close> on strings: \<open>needle\<close> occurs in \<open>hay\<close>.\<close>

fun str_includes :: "string \<Rightarrow> string \<Rightarrow> bool" where
  "str_includes [] needle = (needle = [])"
| "str_includes (h # t) needle = (prefix needle (h # t) \<or> str_includes t needle)"

text \<open>\<^verbatim>\<open>s.split(':')\<close>: the pieces between the colons; there is always at least one.\<close>

fun split_colon :: "string \<Rightarrow> string list" where
  "split_colon [] = [[]]"
| "split_colon (c # cs) =
     (if c = CHR '':'' then [] # split_colon cs
      else (case split_colon cs of [] \<Rightarrow> [[c]] | p # ps \<Rightarrow> (c # p) # ps))"

text \<open>
  \<^verbatim>\<open>xs.slice(0, end)\<close>: \<^verbatim>\<open>NaN\<close> counts as 0, a negative \<open>end\<close> is taken from the end of
  the array.
\<close>

fun slice0 :: "'a list \<Rightarrow> jsnum \<Rightarrow> 'a list" where
  "slice0 xs NaN = []"
| "slice0 xs (Num e) =
     (if e < 0 then take (nat (int (length xs) + e)) xs else take (nat e) xs)"

text \<open>Truthiness of an optional string: \<^verbatim>\<open>undefined\<close> and \<^verbatim>\<open>''\<close> are falsy.\<close>

fun truthy :: "string option \<Rightarrow> bool" where
  "truthy None = False"
| "truthy (Some s) = (s \<noteq> [])"

text \<open>\<^verbatim>\<open>x || d\<close> on an optional string.\<close>

fun or_else :: "string option \<Rightarrow> string \<Rightarrow> string" where
  "or_else None d = d"
| "or_else (Some s) d = (if s = [] then d else s)"

text \<open>\<^verbatim>\<open>x || undefined\<close> on an optional string.\<close>

fun or_undefined :: "string option \<Rightarrow> string option" where
  "or_undefined None = None"
| "or_undefined (Some s) = (if s = [] then None else Some s)"

text \<open>A parameter with a default value: an argument left out takes the default.\<close>

fun withDefault :: "'a \<Rightarrow> 'a option \<Rightarrow> 'a" where
  "withDefault d None = d"
| "withDefault d (Some x) = x"

text \<open>\<^verbatim>\<open>xs || []\<close> on an optional array.\<close>

fun or_empty :: "'a list option \<Rightarrow> 'a list" where
  "or_empty None = []"
| "or_empty (Some xs) = xs"

subsection \<open>Errors\<close>

text \<open>
  A thrown value: an error object with its \<^verbatim>\<open>name\<close> and its \<^verbatim>\<open>message\<close>. The indexer
  itself only ever throws \<^verbatim>\<open>new Error(message)\<close>, whose name is \<^verbatim>\<open>Error\<close>.
\<close>

datatype error = JsError (err_name: string) (err_message: string)

definition Error :: "string \<Rightarrow> error" where
  "Error msg = JsError ''Error'' msg"

text \<open>The text an error has inside a template literal.\<close>

fun error_toString :: "error \<Rightarrow> string" where
  "error_toString (JsError n m) = (if m = [] then n else if n = [] then m else n @ '': '' @ m)"

subsection \<open>The data model\<close>

text \<open>
  \<^verbatim>\<open>AgentSummary\<close>. The type \<open>'v\<close> is the type of the reputation score, which the code
  only passes along. The filter guards \<^verbatim>\<open>name\<close> and the capability lists against being
  absent (\<^verbatim>\<open>?.\<close>, \<^verbatim>\<open>|| []\<close>), so they are optional here.
\<close>

record 'v Extras =
  averageScore :: "'v option"

record 'v AgentSummary =
  chainId :: jsnum
  agentId :: string
  name :: "string option"
  image_url :: "string option"
  description :: string
  owners :: "string list"
  operators :: "string list"
  mcp :: bool
  a2a :: bool
  ens :: "string option"
  did :: "string option"
  walletAddress :: "string option"
  supportedTrusts :: "string list option"
  a2aSkills :: "string list option"
  mcpTools :: "string list option"
  mcpPrompts :: "string list option"
  mcpResources :: "string list option"
  active :: bool
  x402support :: bool
  extras :: "'v Extras"

text \<open>
  \<^verbatim>\<open>SearchParams\<close>, the fields \<^verbatim>\<open>_filterAgents\<close> reads; every field is optional. The
  field names carry the prefix \<open>p_\<close> to keep them apart from those of the summary.
\<close>

record SearchParams =
  p_name :: "string option"
  p_mcp :: "bool option"
  p_a2a :: "bool option"
  p_ens :: "string option"
  p_did :: "string option"
  p_walletAddress :: "string option"
  p_supportedTrust :: "string list option"
  p_a2aSkills :: "string list option"
  p_mcpTools :: "string list option"
  p_mcpPrompts :: "string list option"
  p_mcpResources :: "string list option"
  p_active :: "bool option"
  p_x402support :: "bool option"
  p_chains :: "jsnum list option"

text \<open>The object \<^verbatim>\<open>{}\<close>.\<close>

definition emptyParams :: SearchParams where
  "emptyParams = \<lparr> p_name = None, p_mcp = None, p_a2a = None, p_ens = None, p_did = None,
     p_walletAddress = None, p_supportedTrust = None, p_a2aSkills = None, p_mcpTools = None,
     p_mcpPrompts = None, p_mcpResources = None, p_active = None, p_x402support = None,
     p_chains = None \<rparr>"

text \<open>
  The records of the reputation query: the nested registration file (prefix \<open>rf_\<close>) and the
  agent record around it (prefix \<open>r_\<close>). \<^verbatim>\<open>chainId\<close> comes as a string or as a number.
\<close>

datatype strnum = JStr string | JNum jsnum

fun toString :: "strnum \<Rightarrow> string" where
  "toString (JStr s) = s"
| "toString (JNum n) = String n"

record RegistrationFile =
  rf_name :: "string option"
  rf_image :: "string option"
  rf_description :: "string option"
  rf_mcpEndpoint :: "string option"
  rf_a2aEndpoint :: "string option"
  rf_ens :: "string option"
  rf_did :: "string option"
  rf_agentWallet :: "string option"
  rf_supportedTrusts :: "string list option"
  rf_a2aSkills :: "string list option"
  rf_mcpTools :: "string list option"
  rf_mcpPrompts :: "string list option"
  rf_mcpResources :: "string list option"
  rf_active :: "bool option"
  rf_x402support :: "bool option"

record 'v ReputationRecord =
  r_chainId :: "strnum option"
  r_id :: "string option"
  r_owner :: "string option"
  r_operators :: "string list option"
  r_registrationFile :: "RegistrationFile option"
  r_averageScore :: "'v option"

text \<open>The criteria \<^verbatim>\<open>searchAgentsByReputation\<close> hands to the client unchanged.\<close>

record 'v ReputationCriteria =
  c_agents :: "string list option"
  c_tags :: "string list option"
  c_reviewers :: "string list option"
  c_capabilities :: "string list option"
  c_skills :: "string list option"
  c_tasks :: "string list option"
  c_names :: "string list option"
  c_minAverageScore :: "'v option"

subsection \<open>The subgraph client\<close>

text \<open>
  The three methods of \<^verbatim>\<open>SubgraphClient\<close> the indexer calls (prefix \<open>sg_\<close>): each either
  fails with an error or returns its records. The reputation query takes the criteria, then
  \<^verbatim>\<open>includeRevoked\<close>, \<^verbatim>\<open>first\<close>, \<^verbatim>\<open>skip\<close>, \<^verbatim>\<open>orderBy\<close> and \<^verbatim>\<open>orderDirection\<close>.
\<close>

record 'v SubgraphClient =
  sg_getAgentById :: "string \<Rightarrow> error + 'v AgentSummary option"
  sg_searchAgents :: "SearchParams \<Rightarrow> jsnum \<Rightarrow> jsnum \<Rightarrow> error + 'v AgentSummary list"
  sg_searchAgentsByReputation ::
    "'v ReputationCriteria \<Rightarrow> bool \<Rightarrow> jsnum \<Rightarrow> jsnum \<Rightarrow> string \<Rightarrow> string
      \<Rightarrow> error + 'v ReputationRecord list"

text \<open>A call made to the client, with its arguments.\<close>

datatype 'v call =
    CallGetAgentById string
  | CallSearchAgents SearchParams jsnum jsnum
  | CallSearchAgentsByReputation "'v ReputationCriteria" bool jsnum jsnum string string

text \<open>The result page of both searches.\<close>

record 'v Page =
  items :: "'v AgentSummary list"
  nextCursor :: "string option"

subsection \<open>\<^verbatim>\<open>getAgent\<close>\<close>

text \<open>
  With a client, the agent is looked up and returned when found. In every other case (no
  client, or no such agent) the function falls through to the one \<^verbatim>\<open>throw\<close> at its end.
\<close>

definition notFoundMessage :: "string \<Rightarrow> string" where
  "notFoundMessage aid = ''Agent '' @ aid @ '' not found. Subgraph required for querying.''"

definition getAgent ::
  "'v SubgraphClient option \<Rightarrow> string \<Rightarrow> 'v call list \<times> (error + 'v AgentSummary)" where
  "getAgent subgraphClient aid =
     (case subgraphClient of
        Some client \<Rightarrow>
          (case sg_getAgentById client aid of
             Inl e \<Rightarrow> ([CallGetAgentById aid], Inl e)
           | Inr (Some agent) \<Rightarrow> ([CallGetAgentById aid], Inr agent)
           | Inr None \<Rightarrow> ([CallGetAgentById aid], Inl (Error (notFoundMessage aid))))
      | None \<Rightarrow> ([], Inl (Error (notFoundMessage aid))))"

subsection \<open>\<^verbatim>\<open>_filterAgents\<close> and \<^verbatim>\<open>searchAgents\<close>\<close>

text \<open>
  \<^verbatim>\<open>n?.toLowerCase().includes(needle)\<close> as a condition: an absent \<open>n\<close> makes the whole
  chain \<^verbatim>\<open>undefined\<close>, which is falsy.
\<close>

fun lowerIncludes :: "(string \<Rightarrow> string) \<Rightarrow> string option \<Rightarrow> string \<Rightarrow> bool" where
  "lowerIncludes toLowerCase None needle = False"
| "lowerIncludes toLowerCase (Some n) needle = str_includes (toLowerCase n) needle"

text \<open>\<^verbatim>\<open>crit.some(x => have.includes(x))\<close>.\<close>

definition some_included :: "'a list \<Rightarrow> 'a list \<Rightarrow> bool" where
  "some_included crit have = list_ex (\<lambda>x. List.member have x) crit"

text \<open>
  The callback of \<^verbatim>\<open>agents.filter\<close>: the tests in the order of the source, each returning
  \<^verbatim>\<open>false\<close> at once when it fails. \<open>normalizeAddress\<close> is the imported helper of
  \<^verbatim>\<open>utils/validation\<close>, taken as a parameter: a function from strings to strings that
  always returns. \<open>toLowerCase\<close> is the built-in of that name.
\<close>

definition passesFilter ::
  "(string \<Rightarrow> string) \<Rightarrow> (string \<Rightarrow> string) \<Rightarrow> SearchParams \<Rightarrow> 'v AgentSummary \<Rightarrow> bool" where
  "passesFilter normalizeAddress toLowerCase params agent =
     (if truthy (p_name params) \<and>
         \<not> lowerIncludes toLowerCase (name agent) (toLowerCase (the (p_name params)))
      then False
      else if p_mcp params \<noteq> None \<and> Some (mcp agent) \<noteq> p_mcp params then False
      else if p_a2a params \<noteq> None \<and> Some (a2a agent) \<noteq> p_a2a params then False
      else if truthy (p_ens params) \<and> truthy (ens agent) \<and>
              normalizeAddress (the (ens agent)) \<noteq> normalizeAddress (the (p_ens params))
      then False
      else if truthy (p_did params) \<and> did agent \<noteq> p_did params then False
      else if truthy (p_walletAddress params) \<and> truthy (walletAddress agent) \<and>
              normalizeAddress (the (walletAddress agent))
                \<noteq> normalizeAddress (the (p_walletAddress params))
      then False
      else if or_empty (p_supportedTrust params) \<noteq> [] \<and>
              \<not> some_included (or_empty (p_supportedTrust params)) (or_empty (supportedTrusts agent))
      then False
      else if or_empty (p_a2aSkills params) \<noteq> [] \<and>
              \<not> some_included (or_empty (p_a2aSkills params)) (or_empty (a2aSkills agent))
      then False
      else if or_empty (p_mcpTools params) \<noteq> [] \<and>
              \<not> some_included (or_empty (p_mcpTools params)) (or_empty (mcpTools agent))
      then False
      else if or_empty (p_mcpPrompts params) \<noteq> [] \<and>
              \<not> some_included (or_empty (p_mcpPrompts params)) (or_empty (mcpPrompts agent))
      then False
      else if or_empty (p_mcpResources params) \<noteq> [] \<and>
              \<not> some_included (or_empty (p_mcpResources params)) (or_empty (mcpResources agent))
      then False
      else if p_active params \<noteq> None \<and> Some (active agent) \<noteq> p_active params then False
      else if p_x402support params \<noteq> None \<and> Some (x402support agent) \<noteq> p_x402support params
      then False
      else if or_empty (p_chains params) \<noteq> [] \<and>
              \<not> List.member (or_empty (p_chains params)) (chainId agent)
      then False
      else True)"

definition filterAgents ::
  "(string \<Rightarrow> string) \<Rightarrow> (string \<Rightarrow> string) \<Rightarrow> 'v AgentSummary list \<Rightarrow> SearchParams \<Rightarrow> 'v AgentSummary list" where
  "filterAgents normalizeAddress toLowerCase agents params =
     filter (passesFilter normalizeAddress toLowerCase params) agents"

text \<open>
  \<^verbatim>\<open>searchAgents(params = {}, pageSize = 50, cursor?)\<close>: an argument left out is \<open>None\<close>
  and takes its default. The offset \<^verbatim>\<open>skip\<close> is \<^verbatim>\<open>cursor ? parseInt(cursor, 10) : 0\<close>.
\<close>

definition decodeCursor :: "string option \<Rightarrow> jsnum" where
  "decodeCursor cursor = (if truthy cursor then parseInt (the cursor) else Num 0)"

definition searchAgents ::
  "(string \<Rightarrow> string) \<Rightarrow> (string \<Rightarrow> string) \<Rightarrow> 'v SubgraphClient option \<Rightarrow> SearchParams option \<Rightarrow> jsnum option
     \<Rightarrow> string option \<Rightarrow> 'v call list \<times> (error + 'v Page)" where
  "searchAgents normalizeAddress toLowerCase subgraphClient params pageSizeArg cursor =
     (case subgraphClient of
        None \<Rightarrow> ([], Inl (Error ''Subgraph client required for agent search''))
      | Some client \<Rightarrow>
          (let searchParams = withDefault emptyParams params;
               pageSize = withDefault (Num 50) pageSizeArg;
               skip = decodeCursor cursor;
               limit = jsadd pageSize (Num 1)
           in (case sg_searchAgents client searchParams limit skip of
                 Inl e \<Rightarrow> ([CallSearchAgents searchParams limit skip], Inl e)
               | Inr fetched \<Rightarrow>
                   (let agents = filterAgents normalizeAddress toLowerCase fetched searchParams;
                        hasMore = jsgt (Num (int (length agents))) pageSize;
                        paginatedAgents = (if hasMore then slice0 agents pageSize else agents);
                        next = (if hasMore then Some (String (jsadd skip pageSize)) else None)
                    in ([CallSearchAgents searchParams limit skip],
                        Inr \<lparr> items = paginatedAgents, nextCursor = next \<rparr>)))))"

subsection \<open>\<^verbatim>\<open>searchAgentsByReputation\<close>\<close>

text \<open>
  The sort parameter: only \<^verbatim>\<open>sort[0]\<close> is read; it is split at the colons, and the first two
  pieces replace the defaults when they are not empty. The cast of the second piece to
  \<^verbatim>\<open>'asc' | 'desc'\<close> is a type assertion and checks nothing when the code runs.
\<close>

definition parseSort :: "string list \<Rightarrow> string \<times> string" where
  "parseSort sortList =
     (case sortList of
        [] \<Rightarrow> (''createdAt'', ''desc'')
      | s # _ \<Rightarrow>
          (let sortField = split_colon s
           in (or_else (case sortField of [] \<Rightarrow> None | a # _ \<Rightarrow> Some a) ''createdAt'',
               or_else (case sortField of a # b # _ \<Rightarrow> Some b | _ \<Rightarrow> None) ''desc'')))"

text \<open>The callback of \<^verbatim>\<open>agentsData.map\<close>: one record of the client as an \<^verbatim>\<open>AgentSummary\<close>.\<close>

definition regField :: "RegistrationFile option \<Rightarrow> (RegistrationFile \<Rightarrow> 'a option) \<Rightarrow> 'a option" where
  "regField regFile f = (case regFile of None \<Rightarrow> None | Some r \<Rightarrow> f r)"

definition toSummary :: "(string \<Rightarrow> string) \<Rightarrow> 'v ReputationRecord \<Rightarrow> 'v AgentSummary" where
  "toSummary normalizeAddress agent =
     (let regFile = r_registrationFile agent
      in \<lparr> chainId = parseInt (or_else (map_option toString (r_chainId agent)) ''0''),
           agentId = or_else (r_id agent) '''',
           name = Some (or_else (regField regFile rf_name) ''''),
           image_url = or_undefined (regField regFile rf_image),
           description = or_else (regField regFile rf_description) '''',
           owners = (if truthy (r_owner agent) then [normalizeAddress (the (r_owner agent))] else []),
           operators = map normalizeAddress (or_empty (r_operators agent)),
           mcp = truthy (regField regFile rf_mcpEndpoint),
           a2a = truthy (regField regFile rf_a2aEndpoint),
           ens = or_undefined (regField regFile rf_ens),
           did = or_undefined (regField regFile rf_did),
           walletAddress =
             (if truthy (regField regFile rf_agentWallet)
              then Some (normalizeAddress (the (regField regFile rf_agentWallet))) else None),
           supportedTrusts = Some (or_empty (regField regFile rf_supportedTrusts)),
           a2aSkills = Some (or_empty (regField regFile rf_a2aSkills)),
           mcpTools = Some (or_empty (regField regFile rf_mcpTools)),
           mcpPrompts = Some (or_empty (regField regFile rf_mcpPrompts)),
           mcpResources = Some (or_empty (regField regFile rf_mcpResources)),
           active = (case regField regFile rf_active of None \<Rightarrow> False | Some b \<Rightarrow> b),
           x402support = (case regField regFile rf_x402support of None \<Rightarrow> False | Some b \<Rightarrow> b),
           extras = \<lparr> averageScore = r_averageScore agent \<rparr> \<rparr>)"

text \<open>
  \<^verbatim>\<open>searchAgentsByReputation\<close>: the eight criteria travel in one record; \<^verbatim>\<open>includeRevoked\<close>,
  \<^verbatim>\<open>first\<close>, \<^verbatim>\<open>skip\<close> and \<^verbatim>\<open>sort\<close> take their defaults when left out. A failure of the
  client is caught and thrown again inside a new \<^verbatim>\<open>Error\<close>.
\<close>

definition searchAgentsByReputation ::
  "(string \<Rightarrow> string) \<Rightarrow> 'v SubgraphClient option \<Rightarrow> 'v ReputationCriteria \<Rightarrow> bool option
     \<Rightarrow> jsnum option \<Rightarrow> jsnum option \<Rightarrow> string list option
     \<Rightarrow> 'v call list \<times> (error + 'v Page)" where
  "searchAgentsByReputation normalizeAddress subgraphClient criteria includeRevokedArg firstArg
       skipArg sortArg =
     (case subgraphClient of
        None \<Rightarrow> ([], Inl (Error ''Subgraph client required for reputation search''))
      | Some client \<Rightarrow>
          (let includeRevoked = withDefault False includeRevokedArg;
               first = withDefault (Num 50) firstArg;
               skip = withDefault (Num 0) skipArg;
               sortList = withDefault [''createdAt:desc''] sortArg;
               orderBy = fst (parseSort sortList);
               orderDirection = snd (parseSort sortList);
               made = [CallSearchAgentsByReputation criteria includeRevoked first skip orderBy
                         orderDirection]
           in (case sg_searchAgentsByReputation client criteria includeRevoked first skip orderBy
                      orderDirection of
                 Inl e \<Rightarrow>
                   (made, Inl (Error (''Failed to search agents by reputation: '' @ error_toString e)))
               | Inr agentsData \<Rightarrow>
                   (let its = map (toSummary normalizeAddress) agentsData;
                        next = (if jsstrict_eq (Num (int (length its))) first
                                then Some (String (jsadd skip (Num (int (length its))))) else None)
                    in (made, Inr \<lparr> items = its, nextCursor = next \<rparr>)))))"

subsection \<open>Concrete collaborators for the examples\<close>

text \<open>An address normalisation to run the examples with: lower-casing.\<close>

definition lowerAddress :: "string \<Rightarrow> string" where
  "lowerAddress = asciiLowerCase"

text \<open>
  A client that answers every search with the same records, whatever limit and offset it is
  asked for, and knows no agent by id.
\<close>

definition fixedSource ::
  "'v AgentSummary list \<Rightarrow> 'v ReputationRecord list \<Rightarrow> 'v SubgraphClient" where
  "fixedSource agents records =
     \<lparr> sg_getAgentById = (\<lambda>_. Inr None),
       sg_searchAgents = (\<lambda>_ _ _. Inr agents),
       sg_searchAgentsByReputation = (\<lambda>_ _ _ _ _ _. Inr records) \<rparr>"

definition emptySource :: "unit SubgraphClient" where
  "emptySource = fixedSource [] []"

text \<open>An agent on chain 1 with nothing but its id and name, and no capabilities.\<close>

definition plainAgent :: "string \<Rightarrow> unit AgentSummary" where
  "plainAgent aid =
     \<lparr> chainId = Num 1, agentId = aid, name = Some aid, image_url = None, description = [],
       owners = [], operators = [], mcp = False, a2a = False, ens = None, did = None,
       walletAddress = None, supportedTrusts = Some [], a2aSkills = Some [], mcpTools = Some [],
       mcpPrompts = Some [], mcpResources = Some [], active = True, x402support = False,
       extras = \<lparr> averageScore = None \<rparr> \<rparr>"

text \<open>The same agent with an ENS name and a wallet address.\<close>

definition linkedAgent :: "string \<Rightarrow> string \<Rightarrow> string \<Rightarrow> unit AgentSummary" where
  "linkedAgent aid e w = (plainAgent aid)\<lparr> ens := Some e, walletAddress := Some w \<rparr>"

text \<open>The same agent with an MCP endpoint.\<close>

definition mcpAgent :: "string \<Rightarrow> unit AgentSummary" where
  "mcpAgent aid = (plainAgent aid)\<lparr> mcp := True \<rparr>"

text \<open>A reputation record with a chain id and an id, and no registration file.\<close>

definition plainRecord :: "strnum \<Rightarrow> string \<Rightarrow> unit ReputationRecord" where
  "plainRecord chain rid =
     \<lparr> r_chainId = Some chain, r_id = Some rid, r_owner = None, r_operators = None,
       r_registrationFile = None, r_averageScore = None \<rparr>"

text \<open>A reputation record whose registration file has an MCP endpoint and nothing else.\<close>

definition endpointRecord :: "strnum \<Rightarrow> string \<Rightarrow> string \<Rightarrow> unit ReputationRecord" where
  "endpointRecord chain rid endpoint =
     (plainRecord chain rid)\<lparr> r_registrationFile := Some
       \<lparr> rf_name = None, rf_image = None, rf_description = None, rf_mcpEndpoint = Some endpoint,
         rf_a2aEndpoint = None, rf_ens = None, rf_did = None, rf_agentWallet = None,
         rf_supportedTrusts = None, rf_a2aSkills = None, rf_mcpTools = None, rf_mcpPrompts = None,
         rf_mcpResources = None, rf_active = None, rf_x402support = None \<rparr> \<rparr>"

definition noCriteria :: "unit ReputationCriteria" where
  "noCriteria =
     \<lparr> c_agents = None, c_tags = None, c_reviewers = None, c_capabilities = None,
       c_skills = None, c_tasks = None, c_names = None, c_minAverageScore = None \<rparr>"

section \<open>Properties\<close>

subsection \<open>Decimal strings and \<^verbatim>\<open>parseInt\<close>\<close>

lemma of_char_digitChar: "d < 10 \<Longrightarrow> (of_char (digitChar d) :: nat) = 48 + d"
  by (simp add: digitChar_def)

lemma isDigit_digitChar: "d < 10 \<Longrightarrow> isDigit (digitChar d)"
  by (simp add: isDigit_def of_char_digitChar)

lemma digitValue_digitChar: "d < 10 \<Longrightarrow> digitValue (digitChar d) = d"
  by (simp add: digitValue_def of_char_digitChar)

lemma decimal_digits: "list_all isDigit (decimal n)"
proof (induction n rule: decimal.induct)
  case (1 n)
  show ?case
  proof (cases "n < 10")
    case True
    then show ?thesis by (simp add: decimal.simps [of n] isDigit_digitChar)
  next
    case False
    with 1 show ?thesis by (simp add: decimal.simps [of n] isDigit_digitChar)
  qed
qed

lemma decimal_nonempty: "decimal n \<noteq> []"
  by (subst decimal.simps) simp

lemma digitsValue_snoc: "digitsValue (ds @ [c]) = 10 * digitsValue ds + digitValue c"
  by (simp add: digitsValue_def)

lemma digitsValue_decimal: "digitsValue (decimal n) = n"
proof (induction n rule: decimal.induct)
  case (1 n)
  show ?case
  proof (cases "n < 10")
    case True
    then show ?thesis by (simp add: decimal.simps [of n] digitsValue_def digitValue_digitChar)
  next
    case False
    with 1 have "digitsValue (decimal (n div 10)) = n div 10" by simp
    with False show ?thesis
      by (simp add: decimal.simps [of n] digitsValue_snoc digitValue_digitChar)
  qed
qed

lemma isDigit_not_space: "isDigit c \<Longrightarrow> \<not> isWhiteSpace c"
  by (auto simp: isDigit_def isWhiteSpace_def)

lemma trimStart_keep:
  assumes "(of_char c :: nat) < 128" and "\<not> isWhiteSpace c"
  shows "trimStart (c # r) = c # r"
proof (cases r)
  case Nil
  with assms show ?thesis by simp
next
  case (Cons b r')
  with assms show ?thesis
    by (cases r') (simp_all add: isWhiteSpace2_def isWhiteSpace3_def)
qed

lemma set_trimStart: "set (trimStart s) \<subseteq> set s"
  by (induction s rule: trimStart.induct) auto

lemma isDigit_ascii: "isDigit c \<Longrightarrow> (of_char c :: nat) < 128"
  by (simp add: isDigit_def)

lemma isDigit_not_sign: "isDigit c \<Longrightarrow> c \<noteq> CHR ''-'' \<and> c \<noteq> CHR ''+''"
  by (auto simp: isDigit_def)

lemma parseInt_digits:
  assumes "list_all isDigit ds" "ds \<noteq> []"
  shows "parseInt ds = Num (int (digitsValue ds))"
proof -
  from assms obtain c r where ds: "ds = c # r" by (cases ds) auto
  with assms have c: "isDigit c" by simp
  have tw: "takeWhile isDigit ds = ds"
    using assms(1) by (simp add: list_all_iff)
  have dw: "trimStart ds = ds"
    using c ds by (simp add: trimStart_keep isDigit_ascii isDigit_not_space)
  have u: "(case ds of [] \<Rightarrow> [] | c # r \<Rightarrow> if c = CHR ''-'' \<or> c = CHR ''+'' then r else ds) = ds"
    using ds isDigit_not_sign [OF c] by simp
  have neg: "(case ds of [] \<Rightarrow> False | c # _ \<Rightarrow> c = CHR ''-'') = False"
    using ds isDigit_not_sign [OF c] by simp
  show ?thesis
    unfolding parseInt_def Let_def dw u neg tw using assms(2) by simp
qed

lemma parseInt_minus_digits:
  assumes "list_all isDigit ds" "ds \<noteq> []"
  shows "parseInt (CHR ''-'' # ds) = Num (- int (digitsValue ds))"
proof -
  have tw: "takeWhile isDigit ds = ds"
    using assms(1) by (simp add: list_all_iff)
  have dw: "trimStart (CHR ''-'' # ds) = CHR ''-'' # ds"
    by (rule trimStart_keep) (simp_all add: isWhiteSpace_def)
  show ?thesis
    unfolding parseInt_def Let_def dw using assms(2) by (simp add: tw)
qed

lemma parseInt_String: "parseInt (String (Num i)) = Num i"
proof (cases "i < 0")
  case True
  then show ?thesis
    by (simp add: parseInt_minus_digits decimal_digits decimal_nonempty digitsValue_decimal)
next
  case False
  then show ?thesis
    by (simp add: parseInt_digits decimal_digits decimal_nonempty digitsValue_decimal)
qed

lemma parseInt_NaN_text: "parseInt ''NaN'' = NaN"
  by (simp add: parseInt_def isWhiteSpace_def isWhiteSpace2_def isWhiteSpace3_def isDigit_def Let_def)

lemma parseInt_no_digit: "\<not> list_ex isDigit s \<Longrightarrow> parseInt s = NaN"
proof -
  assume nd: "\<not> list_ex isDigit s"
  have sub: "\<And>u. set u \<subseteq> set s \<Longrightarrow> takeWhile isDigit u = []"
  proof -
    fix u :: string assume "set u \<subseteq> set s"
    with nd show "takeWhile isDigit u = []"
      by (cases u) (auto simp: list_ex_iff)
  qed
  have t: "set (trimStart s) \<subseteq> set s"
    by (rule set_trimStart)
  show ?thesis
    unfolding parseInt_def Let_def
    using t nd by (auto split: list.splits simp: sub list_ex_iff)
qed

lemma String_nonempty: "String n \<noteq> []"
  by (cases n) (simp_all add: decimal_nonempty)

lemma parseInt_zero_text: "parseInt ''0'' = Num 0"
  by (simp add: parseInt_def isWhiteSpace_def isWhiteSpace2_def isWhiteSpace3_def isDigit_def digitsValue_def digitValue_def Let_def)

text \<open>Some concrete values, used in the examples.\<close>

lemma decode_10: "decodeCursor (Some ''10'') = Num 10"
  by (simp add: decodeCursor_def parseInt_def isWhiteSpace_def isWhiteSpace2_def isWhiteSpace3_def isDigit_def digitsValue_def
      digitValue_def Let_def)

lemma String_12: "String (Num 12) = ''12''"
  by (simp add: decimal.simps digitChar_def char_of_eq_iff)

lemma String_50: "String (Num 50) = ''50''"
  by (simp add: decimal.simps digitChar_def char_of_eq_iff)

lemma parseSort_default: "parseSort [''createdAt:desc''] = (''createdAt'', ''desc'')"
  by (simp add: parseSort_def Let_def)

subsection \<open>The residual filter and the page\<close>

text \<open>The chain of early returns of the filter callback reads as a conjunction.\<close>

lemma if_False_else: "(if c then False else P) = (\<not> c \<and> P)"
  by simp

lemma passesFilter_ens:
  "passesFilter normalizeAddress toLowerCase params a \<Longrightarrow> truthy (p_ens params) \<Longrightarrow> truthy (ens a)
     \<Longrightarrow> normalizeAddress (the (ens a)) = normalizeAddress (the (p_ens params))"
  unfolding passesFilter_def if_False_else by simp

lemma passesFilter_wallet:
  "passesFilter normalizeAddress toLowerCase params a \<Longrightarrow> truthy (p_walletAddress params)
     \<Longrightarrow> truthy (walletAddress a)
     \<Longrightarrow> normalizeAddress (the (walletAddress a)) = normalizeAddress (the (p_walletAddress params))"
  unfolding passesFilter_def if_False_else by simp

lemma absent_ens_passes:
  "\<not> truthy (ens a) \<Longrightarrow> passesFilter normalizeAddress toLowerCase (params\<lparr>p_ens := e\<rparr>) a
     = passesFilter normalizeAddress toLowerCase (params\<lparr>p_ens := None\<rparr>) a"
  unfolding passesFilter_def if_False_else by simp

lemma absent_wallet_passes:
  "\<not> truthy (walletAddress a) \<Longrightarrow> passesFilter normalizeAddress toLowerCase (params\<lparr>p_walletAddress := e\<rparr>) a
     = passesFilter normalizeAddress toLowerCase (params\<lparr>p_walletAddress := None\<rparr>) a"
  unfolding passesFilter_def if_False_else by simp

lemma empty_name: "passesFilter normalizeAddress toLowerCase (params\<lparr>p_name := Some ''''\<rparr>) agent
     = passesFilter normalizeAddress toLowerCase (params\<lparr>p_name := None\<rparr>) agent"
  unfolding passesFilter_def if_False_else by simp

lemma empty_ens: "passesFilter normalizeAddress toLowerCase (params\<lparr>p_ens := Some ''''\<rparr>) agent
     = passesFilter normalizeAddress toLowerCase (params\<lparr>p_ens := None\<rparr>) agent"
  unfolding passesFilter_def if_False_else by simp

lemma empty_did: "passesFilter normalizeAddress toLowerCase (params\<lparr>p_did := Some ''''\<rparr>) agent
     = passesFilter normalizeAddress toLowerCase (params\<lparr>p_did := None\<rparr>) agent"
  unfolding passesFilter_def if_False_else by simp

lemma empty_wallet: "passesFilter normalizeAddress toLowerCase (params\<lparr>p_walletAddress := Some ''''\<rparr>) agent
     = passesFilter normalizeAddress toLowerCase (params\<lparr>p_walletAddress := None\<rparr>) agent"
  unfolding passesFilter_def if_False_else by simp

lemma passes_empty: "passesFilter normalizeAddress toLowerCase emptyParams agent"
  unfolding passesFilter_def if_False_else by (simp add: emptyParams_def)

lemma filter_empty: "filterAgents normalizeAddress toLowerCase agents emptyParams = agents"
  by (simp add: filterAgents_def passes_empty)

lemma passes_empty_upd:
  "passesFilter normalizeAddress toLowerCase (emptyParams\<lparr>p_name := None\<rparr>) agent"
  "passesFilter normalizeAddress toLowerCase (emptyParams\<lparr>p_ens := None\<rparr>) agent"
  "passesFilter normalizeAddress toLowerCase (emptyParams\<lparr>p_did := None\<rparr>) agent"
  "passesFilter normalizeAddress toLowerCase (emptyParams\<lparr>p_walletAddress := None\<rparr>) agent"
  unfolding passesFilter_def if_False_else by (simp_all add: emptyParams_def)

text \<open>Slicing and filtering only remove elements.\<close>

lemma subseq_take_self: "subseq (take n xs) xs"
  by (induction xs arbitrary: n) (auto simp: take_Cons split: nat.splits)

lemma subseq_slice0: "subseq (slice0 xs e) xs"
  by (cases e) (simp_all add: subseq_take_self)

lemma set_slice0: "set (slice0 xs e) \<subseteq> set xs"
  by (cases e) (auto dest: in_set_takeD)

text \<open>
  Every item of a page passed the residual filter, and a page is never longer than a page
  size that is a natural number.
\<close>

lemma searchAgents_items_pass:
  assumes "searchAgents normalizeAddress toLowerCase sc params pageSizeArg cursor = (calls, Inr page)"
    and "a \<in> set (items page)"
  shows "passesFilter normalizeAddress toLowerCase (withDefault emptyParams params) a"
proof (cases sc)
  case None
  with assms(1) show ?thesis by (simp add: searchAgents_def)
next
  case (Some client)
  let ?sp = "withDefault emptyParams params"
  let ?ps = "withDefault (Num 50) pageSizeArg"
  obtain fetched where
    f: "sg_searchAgents client ?sp (jsadd ?ps (Num 1)) (decodeCursor cursor) = Inr fetched"
    using assms(1) Some
    by (cases "sg_searchAgents client ?sp (jsadd ?ps (Num 1)) (decodeCursor cursor)")
       (simp_all add: searchAgents_def Let_def)
  let ?agents = "filterAgents normalizeAddress toLowerCase fetched ?sp"
  have "items page = slice0 ?agents ?ps \<or> items page = ?agents"
    using assms(1) Some f by (auto simp: searchAgents_def Let_def split: if_splits)
  with assms(2) have "a \<in> set ?agents"
    using set_slice0 [of ?agents ?ps] by auto
  then show ?thesis by (simp add: filterAgents_def)
qed

lemma searchAgents_length:
  assumes "searchAgents normalizeAddress toLowerCase sc params pageSizeArg cursor = (calls, Inr page)"
    and "withDefault (Num 50) pageSizeArg = Num p" and "0 \<le> p"
  shows "int (length (items page)) \<le> p"
proof (cases sc)
  case None
  with assms(1) show ?thesis by (simp add: searchAgents_def)
next
  case (Some client)
  let ?sp = "withDefault emptyParams params"
  obtain fetched where
    f: "sg_searchAgents client ?sp (jsadd (Num p) (Num 1)) (decodeCursor cursor) = Inr fetched"
    using assms(1,2) Some
    by (cases "sg_searchAgents client ?sp (jsadd (Num p) (Num 1)) (decodeCursor cursor)")
       (simp_all add: searchAgents_def Let_def)
  show ?thesis
    using assms Some f by (auto simp: searchAgents_def Let_def split: if_splits)
qed

subsection \<open>The reputation search\<close>

lemma jsstrict_eq_Num: "jsstrict_eq (Num k) x = (x = Num k)"
  by (cases x) auto

text \<open>What the reputation search returns when the client answers.\<close>

lemma reputation_result:
  assumes "sg_searchAgentsByReputation client criteria (withDefault False includeRevokedArg)
             (withDefault (Num 50) firstArg) (withDefault (Num 0) skipArg)
             (fst (parseSort (withDefault [''createdAt:desc''] sortArg)))
             (snd (parseSort (withDefault [''createdAt:desc''] sortArg))) = Inr recs"
  shows "snd (searchAgentsByReputation normalizeAddress (Some client) criteria includeRevokedArg
             firstArg skipArg sortArg)
          = Inr \<lparr> items = map (toSummary normalizeAddress) recs,
                  nextCursor =
                    (if withDefault (Num 50) firstArg = Num (int (length recs))
                     then Some (String (jsadd (withDefault (Num 0) skipArg) (Num (int (length recs)))))
                     else None) \<rparr>"
  using assms by (simp add: searchAgentsByReputation_def Let_def jsstrict_eq_Num)

text \<open>The chain id and the capability flags of a normalised record.\<close>

lemma toSummary_chainId:
  "chainId (toSummary normalizeAddress r) =
     (case r_chainId r of
        None \<Rightarrow> Num 0
      | Some (JStr s) \<Rightarrow> if s = [] then Num 0 else parseInt s
      | Some (JNum (Num i)) \<Rightarrow> Num i
      | Some (JNum NaN) \<Rightarrow> NaN)"
proof (cases "r_chainId r")
  case None
  then show ?thesis by (simp add: toSummary_def Let_def parseInt_zero_text)
next
  case (Some v)
  show ?thesis
  proof (cases v)
    case (JStr s)
    with Some show ?thesis by (simp add: toSummary_def Let_def parseInt_zero_text)
  next
    case (JNum n)
    show ?thesis
    proof (cases n)
      case (Num i)
      have "or_else (Some (String (Num i))) ''0'' = String (Num i)"
        using String_nonempty [of "Num i"] by (simp del: String.simps)
      with Some JNum Num show ?thesis
        by (simp add: toSummary_def Let_def parseInt_String del: String.simps)
    next
      case NaN
      with Some JNum show ?thesis by (simp add: toSummary_def Let_def parseInt_NaN_text)
    qed
  qed
qed

lemma toSummary_flags:
  "mcp (toSummary normalizeAddress r)
     = (case r_registrationFile r of None \<Rightarrow> False | Some rf \<Rightarrow> truthy (rf_mcpEndpoint rf))"
  "a2a (toSummary normalizeAddress r)
     = (case r_registrationFile r of None \<Rightarrow> False | Some rf \<Rightarrow> truthy (rf_a2aEndpoint rf))"
  by (simp_all add: toSummary_def Let_def regField_def split: option.splits)

text \<open>The parts of the sort parameter that are read.\<close>

lemma parseSort_first_only: "parseSort (s # rest) = parseSort [s]"
  by (simp add: parseSort_def)

lemma parseSort_empty: "parseSort [] = (''createdAt'', ''desc'')"
  by (simp add: parseSort_def)

lemma parseSort_asc: "parseSort [''score:asc''] = (''score'', ''asc'')"
  by (simp add: parseSort_def Let_def)

subsection \<open>Lookup by id\<close>

text \<open>
  Claim C1 says that \<^verbatim>\<open>getAgent\<close> without a client fails with a
  \<^verbatim>\<open>ConfigurationError\<close> "backing index required", an error of another kind than the one
  of a lookup miss. The code has one \<^verbatim>\<open>throw\<close> for both cases: at the agent id
  \<^verbatim>\<open>1:7\<close> the error without a client is a plain \<^verbatim>\<open>Error\<close> with the not-found message,
  and it is the error a configured client that does not know the agent leads to.
\<close>

theorem getAgent_unconfigured_counterexample:
  "getAgent (None :: unit SubgraphClient option) ''1:7''
     = ([], Inl (JsError ''Error'' ''Agent 1:7 not found. Subgraph required for querying.''))
   \<and> snd (getAgent (None :: unit SubgraphClient option) ''1:7'')
     \<noteq> Inl (JsError ''ConfigurationError'' ''backing index required'')
   \<and> snd (getAgent (None :: unit SubgraphClient option) ''1:7'')
     = snd (getAgent (Some emptySource) ''1:7'')"
  by (simp add: getAgent_def Error_def notFoundMessage_def emptySource_def fixedSource_def)

text \<open>
  Claim C1, as amended: for every call to \<^verbatim>\<open>getAgent\<close> when no client is configured, the
  operation fails before any lookup is attempted (the list of calls is empty) with a plain
  \<^verbatim>\<open>Error\<close> whose message is "Agent <id> not found. Subgraph required for querying.";
  this is the same error as the one of a lookup miss on a configured client.
\<close>

theorem getAgent_unconfigured:
  "getAgent (None :: 'v SubgraphClient option) aid
     = ([], Inl (JsError ''Error'' (notFoundMessage aid)))
   \<and> (sg_getAgentById (client :: 'v SubgraphClient) aid = Inr None
        \<longrightarrow> snd (getAgent (Some client) aid) = snd (getAgent None aid))"
  by (simp add: getAgent_def Error_def)

theorem getAgent_unconfigured_witness:
  "sg_getAgentById emptySource ''1:7'' = Inr None
   \<and> snd (getAgent (Some emptySource) ''1:7'')
       = Inl (JsError ''Error'' ''Agent 1:7 not found. Subgraph required for querying.'')"
  using getAgent_unconfigured [of "''1:7''" emptySource]
  by (auto simp: emptySource_def fixedSource_def notFoundMessage_def)

subsection \<open>The cursor\<close>

text \<open>
  Claim C2 says that a cursor that is not the decimal form of a non-negative integer makes
  \<^verbatim>\<open>searchAgents\<close> fail with an \<^verbatim>\<open>InvalidCursorError\<close>, and that \<^verbatim>\<open>NaN\<close> is never used
  as the offset of the fetch. With the cursor \<^verbatim>\<open>abc\<close> the code asks the client for 51
  records at the offset \<^verbatim>\<open>NaN\<close> and returns the page it makes of the answer.
\<close>

theorem searchAgents_cursor_counterexample:
  "searchAgents lowerAddress asciiLowerCase (Some emptySource) None None (Some ''abc'')
     = ([CallSearchAgents emptyParams (Num 51) NaN], Inr \<lparr> items = [], nextCursor = None \<rparr>)"
  by (simp add: searchAgents_def emptySource_def fixedSource_def decodeCursor_def parseInt_def
      isWhiteSpace_def isWhiteSpace2_def isWhiteSpace3_def isDigit_def filterAgents_def Let_def)

text \<open>
  Claim C2, as amended: for every call to \<^verbatim>\<open>searchAgents\<close> on a configured indexer with a
  cursor that is present, the cursor is decoded by \<^verbatim>\<open>parseInt\<close> in base 10 and not
  validated: the empty cursor is the offset 0, a cursor with no decimal digit in it is the
  offset \<^verbatim>\<open>NaN\<close>, and the decoded offset, \<^verbatim>\<open>NaN\<close> included, is the one the single fetch
  is made with. The operation fails exactly when the client fails, with the client's error,
  and never because of the cursor.
\<close>

theorem searchAgents_cursor_not_validated:
  "fst (searchAgents normalizeAddress toLowerCase (Some client) params pageSizeArg (Some cur))
     = [CallSearchAgents (withDefault emptyParams params)
          (jsadd (withDefault (Num 50) pageSizeArg) (Num 1))
          (if cur = [] then Num 0 else parseInt cur)]
   \<and> (snd (searchAgents normalizeAddress toLowerCase (Some client) params pageSizeArg (Some cur)) = Inl e)
     = (sg_searchAgents client (withDefault emptyParams params)
          (jsadd (withDefault (Num 50) pageSizeArg) (Num 1))
          (if cur = [] then Num 0 else parseInt cur) = Inl e)
   \<and> (\<not> list_ex isDigit cur \<longrightarrow> cur \<noteq> [] \<longrightarrow> decodeCursor (Some cur) = NaN)"
  by (auto simp: searchAgents_def decodeCursor_def Let_def parseInt_no_digit split: sum.splits)

theorem searchAgents_cursor_not_validated_witness:
  "\<not> list_ex isDigit ''abc'' \<and> ''abc'' \<noteq> [] \<and> decodeCursor (Some ''abc'') = NaN
   \<and> fst (searchAgents lowerAddress asciiLowerCase (Some emptySource) None None (Some ''abc''))
       = [CallSearchAgents emptyParams (Num 51) NaN]"
  using searchAgents_cursor_not_validated
    [of lowerAddress asciiLowerCase emptySource None None "''abc''" "JsError [] []"]
  by (auto simp: isDigit_def decodeCursor_def)

subsection \<open>Residual tests on ENS name and wallet address\<close>

text \<open>
  Claim C3 says that with an \<^verbatim>\<open>ens\<close> (or \<^verbatim>\<open>walletAddress\<close>) criterion every returned
  record has that field present and equal to the criterion, and that a record without the
  field does not pass. The test of the code is guarded by \<^verbatim>\<open>agent.ens &&\<close>: a record with
  no ENS name is returned for the criterion \<^verbatim>\<open>alice.eth\<close>.
\<close>

theorem searchAgents_ens_wallet_counterexample:
  "searchAgents lowerAddress asciiLowerCase (Some (fixedSource [plainAgent ''1:1''] []))
      (Some (emptyParams\<lparr>p_ens := Some ''alice.eth''\<rparr>)) None None
     = ([CallSearchAgents (emptyParams\<lparr>p_ens := Some ''alice.eth''\<rparr>) (Num 51) (Num 0)],
        Inr \<lparr> items = [plainAgent ''1:1''], nextCursor = None \<rparr>)
   \<and> ens (plainAgent ''1:1'') = None"
  unfolding searchAgents_def filterAgents_def passesFilter_def if_False_else
  by (simp add: fixedSource_def decodeCursor_def emptyParams_def plainAgent_def Let_def)

text \<open>
  Claim C3, as amended: for every record returned by \<^verbatim>\<open>searchAgents\<close> when the
  \<^verbatim>\<open>ens\<close> (respectively \<^verbatim>\<open>walletAddress\<close>) criterion is present and not empty, the
  record's own field is absent (or empty), or it is equal to the criterion under address
  normalisation; a record whose own field is absent or empty passes that test: for it the
  criterion counts as little as an absent one.
\<close>

theorem searchAgents_ens_wallet:
  assumes "searchAgents normalizeAddress toLowerCase sc (Some params) pageSizeArg cursor = (calls, Inr page)"
    and "a \<in> set (items page)"
  shows "(truthy (p_ens params) \<longrightarrow>
            \<not> truthy (ens a) \<or> normalizeAddress (the (ens a)) = normalizeAddress (the (p_ens params)))
       \<and> (truthy (p_walletAddress params) \<longrightarrow>
            \<not> truthy (walletAddress a) \<or>
            normalizeAddress (the (walletAddress a)) = normalizeAddress (the (p_walletAddress params)))
       \<and> (\<not> truthy (ens b) \<longrightarrow>
            passesFilter normalizeAddress toLowerCase (params\<lparr>p_ens := e\<rparr>) b
              = passesFilter normalizeAddress toLowerCase (params\<lparr>p_ens := None\<rparr>) b)
       \<and> (\<not> truthy (walletAddress b) \<longrightarrow>
            passesFilter normalizeAddress toLowerCase (params\<lparr>p_walletAddress := e\<rparr>) b
              = passesFilter normalizeAddress toLowerCase (params\<lparr>p_walletAddress := None\<rparr>) b)"
proof -
  have p: "passesFilter normalizeAddress toLowerCase params a"
    using searchAgents_items_pass [OF assms] by simp
  show ?thesis
    using passesFilter_ens [OF p] passesFilter_wallet [OF p]
      absent_ens_passes [where a = b and normalizeAddress = normalizeAddress
        and toLowerCase = toLowerCase and params = params and e = e]
      absent_wallet_passes [where a = b and normalizeAddress = normalizeAddress
        and toLowerCase = toLowerCase and params = params and e = e]
    by blast
qed

theorem searchAgents_ens_wallet_witness:
  "searchAgents lowerAddress asciiLowerCase (Some (fixedSource [linkedAgent ''1:2'' ''Alice.ETH'' ''0xAB''] []))
      (Some (emptyParams\<lparr>p_ens := Some ''alice.eth'', p_walletAddress := Some ''0xab''\<rparr>))
      None None
     = ([CallSearchAgents (emptyParams\<lparr>p_ens := Some ''alice.eth'', p_walletAddress := Some ''0xab''\<rparr>)
          (Num 51) (Num 0)],
        Inr \<lparr> items = [linkedAgent ''1:2'' ''Alice.ETH'' ''0xAB''], nextCursor = None \<rparr>)
   \<and> truthy (p_ens (emptyParams\<lparr>p_ens := Some ''alice.eth'', p_walletAddress := Some ''0xab''\<rparr>))
   \<and> truthy (p_walletAddress
         (emptyParams\<lparr>p_ens := Some ''alice.eth'', p_walletAddress := Some ''0xab''\<rparr>))
   \<and> lowerAddress (the (ens (linkedAgent ''1:2'' ''Alice.ETH'' ''0xAB''))) = lowerAddress ''alice.eth''
   \<and> lowerAddress (the (walletAddress (linkedAgent ''1:2'' ''Alice.ETH'' ''0xAB'')))
       = lowerAddress ''0xab''
   \<and> \<not> truthy (ens (plainAgent ''1:1'')) \<and> \<not> truthy (walletAddress (plainAgent ''1:1''))
   \<and> passesFilter lowerAddress asciiLowerCase
         (emptyParams\<lparr>p_ens := Some ''alice.eth'', p_walletAddress := Some ''0xab''\<rparr>)
         (plainAgent ''1:1'')"
proof -
  let ?A = "linkedAgent ''1:2'' ''Alice.ETH'' ''0xAB''"
  let ?P = "emptyParams\<lparr>p_ens := Some ''alice.eth'', p_walletAddress := Some ''0xab''\<rparr>"
  have low: "lowerAddress ''Alice.ETH'' = ''alice.eth''" "lowerAddress ''0xAB'' = ''0xab''"
    "lowerAddress ''alice.eth'' = ''alice.eth''" "lowerAddress ''0xab'' = ''0xab''"
    by (simp_all add: lowerAddress_def asciiLowerCase_def toLowerChar_def char_of_eq_iff)
  have run: "searchAgents lowerAddress asciiLowerCase (Some (fixedSource [?A] [])) (Some ?P) None None
     = ([CallSearchAgents ?P (Num 51) (Num 0)], Inr \<lparr> items = [?A], nextCursor = None \<rparr>)"
    unfolding searchAgents_def filterAgents_def passesFilter_def if_False_else
    by (simp add: fixedSource_def decodeCursor_def emptyParams_def plainAgent_def linkedAgent_def
        Let_def low)
  have mem: "?A \<in> set (items \<lparr> items = [?A], nextCursor = None \<rparr>)"
    by simp
  have abs: "\<not> truthy (ens (plainAgent ''1:1''))" "\<not> truthy (walletAddress (plainAgent ''1:1''))"
    by (simp_all add: plainAgent_def)
  have pass2: "passesFilter lowerAddress asciiLowerCase ?P (plainAgent ''1:1'')"
    unfolding passesFilter_def if_False_else by (simp add: emptyParams_def plainAgent_def)
  show ?thesis
    using searchAgents_ens_wallet [OF run mem, of "plainAgent ''1:1''" "Some ''alice.eth''"]
      run abs pass2
    by (simp add: linkedAgent_def low)
qed

subsection \<open>The sort parameter\<close>

text \<open>
  Claim C4 says that the sort parameter is read from its first entry only, split at the
  colon, with \<^verbatim>\<open>createdAt\<close> and \<^verbatim>\<open>desc\<close> as defaults, and that the direction is always
  \<^verbatim>\<open>asc\<close> or \<^verbatim>\<open>desc\<close>, which is also the declared type of the variable. The code casts
  the second piece to that type without looking at it: with \<^verbatim>\<open>sort = ["score:up"]\<close> the
  client is asked for the direction \<^verbatim>\<open>up\<close>.
\<close>

theorem sort_direction_unchecked:
  "fst (searchAgentsByReputation lowerAddress (Some emptySource) noCriteria None None None
         (Some [''score:up'']))
     = [CallSearchAgentsByReputation noCriteria False (Num 50) (Num 0) ''score'' ''up'']"
  by (simp add: searchAgentsByReputation_def emptySource_def fixedSource_def parseSort_def Let_def)

subsection \<open>Pagination of the filtered search\<close>

text \<open>
  Claim C5: for every call to \<^verbatim>\<open>searchAgents\<close> with page size \<open>p\<close> (a natural number) and
  decoded offset \<open>off\<close>, the single call to the client asks for \<open>p + 1\<close> records at offset
  \<open>off\<close>; if more than \<open>p\<close> records are left by the residual filter, the page holds exactly
  the first \<open>p\<close> of them and the next cursor is the decimal string of \<open>off + p\<close>; otherwise
  the page holds all of them and there is no next cursor. The numbers \<open>p\<close>, \<open>off\<close> and
  \<open>off + p\<close> are safe integers, on which the sums of the code are the sums of integers.
\<close>

theorem searchAgents_pagination:
  assumes "withDefault (Num 50) pageSizeArg = Num p" and "0 \<le> p" and "safeInteger p"
    and "decodeCursor cursor = Num off" and "safeInteger off" and "safeInteger (off + p)"
    and "sg_searchAgents client (withDefault emptyParams params) (Num (p + 1)) (Num off)
           = Inr fetched"
    and "filtered = filterAgents normalizeAddress toLowerCase fetched (withDefault emptyParams params)"
  shows "searchAgents normalizeAddress toLowerCase (Some client) params pageSizeArg cursor
           = ([CallSearchAgents (withDefault emptyParams params) (Num (p + 1)) (Num off)],
              Inr (if p < int (length filtered)
                   then \<lparr> items = take (nat p) filtered,
                          nextCursor = Some (String (Num (off + p))) \<rparr>
                   else \<lparr> items = filtered, nextCursor = None \<rparr>))
         \<and> (p < int (length filtered) \<longrightarrow> int (length (take (nat p) filtered)) = p)"
  using assms by (auto simp: searchAgents_def Let_def)

theorem searchAgents_pagination_witness:
  "withDefault (Num 50) (Some (Num 2)) = Num 2 \<and> (0::int) \<le> 2 \<and> safeInteger 2
   \<and> decodeCursor (Some ''10'') = Num 10 \<and> safeInteger 10 \<and> safeInteger (10 + 2)
   \<and> sg_searchAgents (fixedSource [mcpAgent ''1:1'', mcpAgent ''1:2'', mcpAgent ''1:3''] [])
        (emptyParams\<lparr>p_mcp := Some True\<rparr>) (Num 3) (Num 10)
       = Inr [mcpAgent ''1:1'', mcpAgent ''1:2'', mcpAgent ''1:3'']
   \<and> searchAgents lowerAddress asciiLowerCase
        (Some (fixedSource [mcpAgent ''1:1'', mcpAgent ''1:2'', mcpAgent ''1:3''] []))
        (Some (emptyParams\<lparr>p_mcp := Some True\<rparr>)) (Some (Num 2)) (Some ''10'')
       = ([CallSearchAgents (emptyParams\<lparr>p_mcp := Some True\<rparr>) (Num 3) (Num 10)],
          Inr \<lparr> items = [mcpAgent ''1:1'', mcpAgent ''1:2''], nextCursor = Some ''12'' \<rparr>)"
proof -
  let ?src = "fixedSource [mcpAgent ''1:1'', mcpAgent ''1:2'', mcpAgent ''1:3''] []"
  let ?P = "emptyParams\<lparr>p_mcp := Some True\<rparr>"
  have h1: "withDefault (Num 50) (Some (Num 2)) = Num 2" by simp
  have h2: "(0::int) \<le> 2" by simp
  have s1: "safeInteger 2" and s2: "safeInteger 10" and s3: "safeInteger (10 + 2)"
    by (simp_all add: safeInteger_def)
  have h4: "sg_searchAgents ?src (withDefault emptyParams (Some ?P)) (Num (2 + 1)) (Num 10)
       = Inr [mcpAgent ''1:1'', mcpAgent ''1:2'', mcpAgent ''1:3'']"
    by (simp add: fixedSource_def)
  have pass: "\<And>aid. passesFilter lowerAddress asciiLowerCase ?P (mcpAgent aid)"
    unfolding passesFilter_def if_False_else by (simp add: emptyParams_def mcpAgent_def)
  have h5: "[mcpAgent ''1:1'', mcpAgent ''1:2'', mcpAgent ''1:3'']
      = filterAgents lowerAddress asciiLowerCase [mcpAgent ''1:1'', mcpAgent ''1:2'', mcpAgent ''1:3'']
          (withDefault emptyParams (Some ?P))"
    by (simp add: filterAgents_def pass)
  show ?thesis
    using searchAgents_pagination [OF h1 h2 s1 decode_10 s2 s3 h4 h5] h4 s1 s2 s3
    by (simp add: decode_10 String_12 del: String.simps)
qed

subsection \<open>Pagination of the reputation search\<close>

text \<open>
  Claim C6: for every call to \<^verbatim>\<open>searchAgentsByReputation\<close> with parameters \<open>first\<close> and
  \<open>skip\<close>, the next cursor is defined, and then the decimal string of \<open>skip\<close> plus the number
  of returned items, if and only if the client returned exactly \<open>first\<close> records; otherwise it
  is absent. The numbers \<open>skip\<close> and \<open>skip\<close> plus the number of returned items are safe
  integers, on which the sum of the code is the sum of integers.
\<close>

theorem reputation_nextCursor:
  assumes "withDefault (Num 0) skipArg = Num s" and "safeInteger s"
    and "safeInteger (s + int (length recs))"
    and "sg_searchAgentsByReputation client criteria (withDefault False includeRevokedArg)
             (withDefault (Num 50) firstArg) (Num s)
             (fst (parseSort (withDefault [''createdAt:desc''] sortArg)))
             (snd (parseSort (withDefault [''createdAt:desc''] sortArg))) = Inr recs"
  shows "\<exists>page. snd (searchAgentsByReputation normalizeAddress (Some client) criteria
                      includeRevokedArg firstArg skipArg sortArg) = Inr page
           \<and> length (items page) = length recs
           \<and> nextCursor page =
               (if withDefault (Num 50) firstArg = Num (int (length recs))
                then Some (String (Num (s + int (length recs)))) else None)"
proof -
  have "sg_searchAgentsByReputation client criteria (withDefault False includeRevokedArg)
             (withDefault (Num 50) firstArg) (withDefault (Num 0) skipArg)
             (fst (parseSort (withDefault [''createdAt:desc''] sortArg)))
             (snd (parseSort (withDefault [''createdAt:desc''] sortArg))) = Inr recs"
    using assms by simp
  from reputation_result [OF this, of normalizeAddress] assms(1) show ?thesis
    by simp
qed

theorem reputation_nextCursor_witness:
  "withDefault (Num 0) None = Num 0 \<and> safeInteger 0
   \<and> safeInteger (0 + int (length (replicate 50 (plainRecord (JStr ''1'') ''1:1''))))
   \<and> sg_searchAgentsByReputation (fixedSource [] (replicate 50 (plainRecord (JStr ''1'') ''1:1'')))
        noCriteria False (Num 50) (Num 0) ''createdAt'' ''desc''
       = Inr (replicate 50 (plainRecord (JStr ''1'') ''1:1''))
   \<and> (\<exists>page. snd (searchAgentsByReputation lowerAddress
          (Some (fixedSource [] (replicate 50 (plainRecord (JStr ''1'') ''1:1''))))
          noCriteria None None None None) = Inr page
        \<and> length (items page) = 50 \<and> nextCursor page = Some ''50'')"
proof -
  let ?recs = "replicate 50 (plainRecord (JStr ''1'') ''1:1'')"
  have s: "withDefault (Num 0) None = Num 0" by simp
  have s1: "safeInteger 0" and s2: "safeInteger (0 + int (length ?recs))"
    by (simp_all add: safeInteger_def)
  have h: "sg_searchAgentsByReputation (fixedSource [] ?recs) noCriteria (withDefault False None)
             (withDefault (Num 50) None) (Num 0)
             (fst (parseSort (withDefault [''createdAt:desc''] None)))
             (snd (parseSort (withDefault [''createdAt:desc''] None))) = Inr ?recs"
    by (simp add: fixedSource_def)
  show ?thesis
    using reputation_nextCursor [OF s s1 s2 h, of lowerAddress] s1 s2
    by (simp add: fixedSource_def String_50 del: String.simps)
qed

subsection \<open>Normalisation of a reputation record\<close>

text \<open>
  Claim C7 says that the chain id of a normalised record is the integer parsed from the
  record's \<^verbatim>\<open>chainId\<close>, and 0 whenever the parse fails or the field is absent. The fallback
  of the code, \<^verbatim>\<open>|| '0'\<close>, only covers the absent and the empty field: the chain id
  \<^verbatim>\<open>abc\<close> is normalised to \<^verbatim>\<open>NaN\<close>.
\<close>

theorem reputation_normalization_counterexample:
  "chainId (toSummary lowerAddress (plainRecord (JStr ''abc'') ''1:1'')) = NaN
   \<and> snd (searchAgentsByReputation lowerAddress
        (Some (fixedSource [] [plainRecord (JStr ''abc'') ''1:1''])) noCriteria None None None None)
       = Inr \<lparr> items = [toSummary lowerAddress (plainRecord (JStr ''abc'') ''1:1'')],
               nextCursor = None \<rparr>"
  by (simp add: searchAgentsByReputation_def fixedSource_def Let_def toSummary_chainId
      plainRecord_def parseInt_def isWhiteSpace_def isWhiteSpace2_def isWhiteSpace3_def isDigit_def)

text \<open>
  Claim C7, as amended: for every record returned by the reputation source and normalised by
  \<^verbatim>\<open>searchAgentsByReputation\<close>, the chain id of the summary is the integer parsed from the
  record's \<^verbatim>\<open>chainId\<close> (a string, or a number, within the safe integers), it is 0 when the
  field is absent or the empty string, and it is \<^verbatim>\<open>NaN\<close>, not 0, when the parse fails;
  \<^verbatim>\<open>mcp\<close> (respectively \<^verbatim>\<open>a2a\<close>) is true exactly when the nested registration record is
  there and has an \<^verbatim>\<open>mcpEndpoint\<close> (respectively \<^verbatim>\<open>a2aEndpoint\<close>) that is present and not
  the empty string.
\<close>

theorem reputation_normalization:
  assumes "sg_searchAgentsByReputation client criteria (withDefault False includeRevokedArg)
             (withDefault (Num 50) firstArg) (withDefault (Num 0) skipArg)
             (fst (parseSort (withDefault [''createdAt:desc''] sortArg)))
             (snd (parseSort (withDefault [''createdAt:desc''] sortArg))) = Inr recs"
    and "case r_chainId r of
           None \<Rightarrow> True
         | Some (JStr s) \<Rightarrow> inSafeRange (parseInt s)
         | Some (JNum x) \<Rightarrow> inSafeRange x"
  shows "(\<exists>page. snd (searchAgentsByReputation normalizeAddress (Some client) criteria
                      includeRevokedArg firstArg skipArg sortArg) = Inr page
            \<and> items page = map (toSummary normalizeAddress) recs)
       \<and> chainId (toSummary normalizeAddress r) =
           (case r_chainId r of
              None \<Rightarrow> Num 0
            | Some (JStr s) \<Rightarrow> if s = [] then Num 0 else parseInt s
            | Some (JNum x) \<Rightarrow> x)
       \<and> mcp (toSummary normalizeAddress r)
           = (case r_registrationFile r of None \<Rightarrow> False | Some rf \<Rightarrow> truthy (rf_mcpEndpoint rf))
       \<and> a2a (toSummary normalizeAddress r)
           = (case r_registrationFile r of None \<Rightarrow> False | Some rf \<Rightarrow> truthy (rf_a2aEndpoint rf))"
proof -
  have page: "\<exists>page. snd (searchAgentsByReputation normalizeAddress (Some client) criteria
                      includeRevokedArg firstArg skipArg sortArg) = Inr page
            \<and> items page = map (toSummary normalizeAddress) recs"
    using reputation_result [OF assms(1), of normalizeAddress] by simp
  have chain: "chainId (toSummary normalizeAddress r) =
           (case r_chainId r of
              None \<Rightarrow> Num 0
            | Some (JStr s) \<Rightarrow> if s = [] then Num 0 else parseInt s
            | Some (JNum x) \<Rightarrow> x)"
    using toSummary_chainId [of normalizeAddress r]
    by (simp split: option.splits strnum.splits jsnum.splits)
  show ?thesis
    using page chain toSummary_flags [of normalizeAddress r] by simp
qed

theorem reputation_normalization_witness:
  "sg_searchAgentsByReputation
       (fixedSource [] [endpointRecord (JStr ''8453'') ''8453:1'' ''https://mcp.example'',
                        plainRecord (JNum (Num 1)) ''1:2''])
       noCriteria False (Num 50) (Num 0) ''createdAt'' ''desc''
     = Inr [endpointRecord (JStr ''8453'') ''8453:1'' ''https://mcp.example'',
            plainRecord (JNum (Num 1)) ''1:2'']
   \<and> inSafeRange (parseInt ''8453'') \<and> inSafeRange (Num 1)
   \<and> (\<exists>page. snd (searchAgentsByReputation lowerAddress
          (Some (fixedSource [] [endpointRecord (JStr ''8453'') ''8453:1'' ''https://mcp.example'',
                                 plainRecord (JNum (Num 1)) ''1:2'']))
          noCriteria None None None None) = Inr page
        \<and> items page
            = [toSummary lowerAddress (endpointRecord (JStr ''8453'') ''8453:1'' ''https://mcp.example''),
               toSummary lowerAddress (plainRecord (JNum (Num 1)) ''1:2'')])
   \<and> chainId (toSummary lowerAddress (endpointRecord (JStr ''8453'') ''8453:1'' ''https://mcp.example''))
       = Num 8453
   \<and> mcp (toSummary lowerAddress (endpointRecord (JStr ''8453'') ''8453:1'' ''https://mcp.example''))
   \<and> \<not> a2a (toSummary lowerAddress (endpointRecord (JStr ''8453'') ''8453:1'' ''https://mcp.example''))
   \<and> chainId (toSummary lowerAddress (plainRecord (JNum (Num 1)) ''1:2'')) = Num 1
   \<and> \<not> mcp (toSummary lowerAddress (plainRecord (JNum (Num 1)) ''1:2''))"
proof -
  let ?r = "endpointRecord (JStr ''8453'') ''8453:1'' ''https://mcp.example''"
  let ?q = "plainRecord (JNum (Num 1)) ''1:2''"
  have h: "sg_searchAgentsByReputation (fixedSource [] [?r, ?q]) noCriteria (withDefault False None)
             (withDefault (Num 50) None) (withDefault (Num 0) None)
             (fst (parseSort (withDefault [''createdAt:desc''] None)))
             (snd (parseSort (withDefault [''createdAt:desc''] None))) = Inr [?r, ?q]"
    by (simp add: fixedSource_def)
  have p: "parseInt ''8453'' = Num 8453"
    by (simp add: parseInt_def isWhiteSpace_def isWhiteSpace2_def isWhiteSpace3_def isDigit_def
        digitsValue_def digitValue_def Let_def)
  have rr: "case r_chainId ?r of
              None \<Rightarrow> True
            | Some (JStr s) \<Rightarrow> inSafeRange (parseInt s)
            | Some (JNum x) \<Rightarrow> inSafeRange x"
    by (simp add: endpointRecord_def plainRecord_def p safeInteger_def)
  have rq: "case r_chainId ?q of
              None \<Rightarrow> True
            | Some (JStr s) \<Rightarrow> inSafeRange (parseInt s)
            | Some (JNum x) \<Rightarrow> inSafeRange x"
    by (simp add: plainRecord_def safeInteger_def)
  show ?thesis
    using reputation_normalization [OF h rr, of lowerAddress]
      reputation_normalization [OF h rq, of lowerAddress]
    by (simp add: fixedSource_def endpointRecord_def plainRecord_def p safeInteger_def)
qed

subsection \<open>The length of a page\<close>

text \<open>
  Claim C8 says that, whatever the client returns, \<^verbatim>\<open>searchAgents\<close> returns at most
  \<^verbatim>\<open>pageSize\<close> items and \<^verbatim>\<open>searchAgentsByReputation\<close> at most \<^verbatim>\<open>first\<close> items. The
  reputation search does not cut the answer of the client: with \<^verbatim>\<open>first = 1\<close> and a client
  that returns two records, the page has two items.
\<close>

theorem page_length_counterexample:
  "snd (searchAgentsByReputation lowerAddress
         (Some (fixedSource [] [plainRecord (JStr ''1'') ''1:1'', plainRecord (JStr ''1'') ''1:2'']))
         noCriteria None (Some (Num 1)) None None)
     = Inr \<lparr> items = [toSummary lowerAddress (plainRecord (JStr ''1'') ''1:1''),
                      toSummary lowerAddress (plainRecord (JStr ''1'') ''1:2'')],
             nextCursor = None \<rparr>
   \<and> \<not> length [toSummary lowerAddress (plainRecord (JStr ''1'') ''1:1''),
                 toSummary lowerAddress (plainRecord (JStr ''1'') ''1:2'')] \<le> (1::nat)"
  by (simp add: searchAgentsByReputation_def fixedSource_def Let_def)

text \<open>
  Claim C8, as amended: for all criteria, cursors and answers of the client,
  \<^verbatim>\<open>searchAgents\<close> returns at most \<^verbatim>\<open>pageSize\<close> items when the page size is a natural
  number, and \<^verbatim>\<open>searchAgentsByReputation\<close> returns exactly as many items as the client
  returned records (so at most \<^verbatim>\<open>first\<close> when the client returns no more than it was asked
  for).
\<close>

theorem page_length_bounds:
  "(searchAgents normalizeAddress toLowerCase sc params pageSizeArg cursor = (calls, Inr page)
      \<longrightarrow> withDefault (Num 50) pageSizeArg = Num p \<longrightarrow> 0 \<le> p
      \<longrightarrow> int (length (items page)) \<le> p)
   \<and> (sg_searchAgentsByReputation client criteria (withDefault False includeRevokedArg)
         (withDefault (Num 50) firstArg) (withDefault (Num 0) skipArg)
         (fst (parseSort (withDefault [''createdAt:desc''] sortArg)))
         (snd (parseSort (withDefault [''createdAt:desc''] sortArg))) = Inr recs
      \<longrightarrow> (\<exists>page'. snd (searchAgentsByReputation normalizeAddress (Some client) criteria
                         includeRevokedArg firstArg skipArg sortArg) = Inr page'
             \<and> length (items page') = length recs))"
  using searchAgents_length [of normalizeAddress toLowerCase sc params pageSizeArg cursor calls page p]
    reputation_result [of client criteria includeRevokedArg firstArg skipArg sortArg recs
      normalizeAddress]
  by auto

theorem page_length_bounds_witness:
  "searchAgents lowerAddress asciiLowerCase
        (Some (fixedSource [mcpAgent ''1:1'', mcpAgent ''1:2'', mcpAgent ''1:3''] []))
        (Some (emptyParams\<lparr>p_mcp := Some True\<rparr>)) (Some (Num 2)) (Some ''10'')
       = ([CallSearchAgents (emptyParams\<lparr>p_mcp := Some True\<rparr>) (Num 3) (Num 10)],
          Inr \<lparr> items = [mcpAgent ''1:1'', mcpAgent ''1:2''], nextCursor = Some ''12'' \<rparr>)
   \<and> withDefault (Num 50) (Some (Num 2)) = Num 2 \<and> (0::int) \<le> 2
   \<and> int (length [mcpAgent ''1:1'', mcpAgent ''1:2'']) \<le> 2
   \<and> sg_searchAgentsByReputation
        (fixedSource [] [plainRecord (JStr ''1'') ''1:1'', plainRecord (JStr ''1'') ''1:2''])
        noCriteria False (Num 2) (Num 0) ''createdAt'' ''desc''
       = Inr [plainRecord (JStr ''1'') ''1:1'', plainRecord (JStr ''1'') ''1:2'']
   \<and> (\<exists>page'. snd (searchAgentsByReputation lowerAddress
          (Some (fixedSource [] [plainRecord (JStr ''1'') ''1:1'', plainRecord (JStr ''1'') ''1:2'']))
          noCriteria None (Some (Num 2)) None None) = Inr page'
        \<and> length (items page') = 2)"
proof -
  let ?src = "fixedSource [mcpAgent ''1:1'', mcpAgent ''1:2'', mcpAgent ''1:3''] []"
  let ?P = "emptyParams\<lparr>p_mcp := Some True\<rparr>"
  let ?recs = "[plainRecord (JStr ''1'') ''1:1'', plainRecord (JStr ''1'') ''1:2'']"
  have pass: "\<And>aid. passesFilter lowerAddress asciiLowerCase ?P (mcpAgent aid)"
    unfolding passesFilter_def if_False_else by (simp add: emptyParams_def mcpAgent_def)
  have run: "searchAgents lowerAddress asciiLowerCase (Some ?src) (Some ?P) (Some (Num 2)) (Some ''10'')
       = ([CallSearchAgents ?P (Num 3) (Num 10)],
          Inr \<lparr> items = [mcpAgent ''1:1'', mcpAgent ''1:2''], nextCursor = Some ''12'' \<rparr>)"
    by (simp add: searchAgents_def fixedSource_def filterAgents_def pass decode_10 String_12
        Let_def del: String.simps)
  show ?thesis
    using page_length_bounds [of lowerAddress asciiLowerCase "Some ?src" "Some ?P" "Some (Num 2)" "Some ''10''"
        "[CallSearchAgents ?P (Num 3) (Num 10)]"
        "\<lparr> items = [mcpAgent ''1:1'', mcpAgent ''1:2''], nextCursor = Some ''12'' \<rparr>" 2
        "fixedSource [] ?recs" noCriteria None "Some (Num 2)" None None ?recs]
      run
    by (auto simp: fixedSource_def parseSort_default)
qed

subsection \<open>The order of a page\<close>

text \<open>
  Claim C9: for every call to \<^verbatim>\<open>searchAgents\<close>, the returned items are a subsequence of
  the records the client returned: the residual filter and the cut to the page size only
  remove elements, and never reorder, duplicate or add any.
\<close>

theorem searchAgents_subseq:
  assumes "sg_searchAgents client (withDefault emptyParams params)
             (jsadd (withDefault (Num 50) pageSizeArg) (Num 1)) (decodeCursor cursor) = Inr fetched"
  shows "\<exists>page. snd (searchAgents normalizeAddress toLowerCase (Some client) params pageSizeArg cursor) = Inr page
           \<and> subseq (items page) fetched"
proof -
  let ?agents = "filterAgents normalizeAddress toLowerCase fetched (withDefault emptyParams params)"
  have f: "subseq ?agents fetched"
    by (simp add: filterAgents_def)
  have s: "subseq (slice0 ?agents (withDefault (Num 50) pageSizeArg)) fetched"
    using subseq_slice0 f by (rule subseq_order.trans)
  show ?thesis
    using assms f s by (simp add: searchAgents_def Let_def)
qed

theorem searchAgents_subseq_witness:
  "sg_searchAgents (fixedSource [plainAgent ''1:1'', mcpAgent ''1:2'', mcpAgent ''1:3''] [])
      (emptyParams\<lparr>p_mcp := Some True\<rparr>) (Num 2) (Num 10)
     = Inr [plainAgent ''1:1'', mcpAgent ''1:2'', mcpAgent ''1:3'']
   \<and> (\<exists>page. snd (searchAgents lowerAddress asciiLowerCase
          (Some (fixedSource [plainAgent ''1:1'', mcpAgent ''1:2'', mcpAgent ''1:3''] []))
          (Some (emptyParams\<lparr>p_mcp := Some True\<rparr>)) (Some (Num 1)) (Some ''10'')) = Inr page
        \<and> subseq (items page) [plainAgent ''1:1'', mcpAgent ''1:2'', mcpAgent ''1:3''])"
proof -
  have h: "sg_searchAgents (fixedSource [plainAgent ''1:1'', mcpAgent ''1:2'', mcpAgent ''1:3''] [])
      (withDefault emptyParams (Some (emptyParams\<lparr>p_mcp := Some True\<rparr>)))
      (jsadd (withDefault (Num 50) (Some (Num 1))) (Num 1)) (decodeCursor (Some ''10''))
     = Inr [plainAgent ''1:1'', mcpAgent ''1:2'', mcpAgent ''1:3'']"
    by (simp add: fixedSource_def)
  show ?thesis
    using searchAgents_subseq [OF h, of lowerAddress asciiLowerCase] by (simp add: fixedSource_def)
qed

subsection \<open>Empty criteria\<close>

text \<open>
  Claim C10: in \<^verbatim>\<open>searchAgents\<close>, a criterion \<^verbatim>\<open>name\<close>, \<^verbatim>\<open>ens\<close>, \<^verbatim>\<open>did\<close> or
  \<^verbatim>\<open>walletAddress\<close> that is the empty string is no constraint: the residual filter
  decides as it does with the criterion absent, and with no other criterion every fetched
  record passes.
\<close>

theorem empty_criterion_no_constraint:
  "passesFilter normalizeAddress toLowerCase (params\<lparr>p_name := Some ''''\<rparr>) agent
     = passesFilter normalizeAddress toLowerCase (params\<lparr>p_name := None\<rparr>) agent
   \<and> passesFilter normalizeAddress toLowerCase (params\<lparr>p_ens := Some ''''\<rparr>) agent
     = passesFilter normalizeAddress toLowerCase (params\<lparr>p_ens := None\<rparr>) agent
   \<and> passesFilter normalizeAddress toLowerCase (params\<lparr>p_did := Some ''''\<rparr>) agent
     = passesFilter normalizeAddress toLowerCase (params\<lparr>p_did := None\<rparr>) agent
   \<and> passesFilter normalizeAddress toLowerCase (params\<lparr>p_walletAddress := Some ''''\<rparr>) agent
     = passesFilter normalizeAddress toLowerCase (params\<lparr>p_walletAddress := None\<rparr>) agent
   \<and> filterAgents normalizeAddress toLowerCase agents (emptyParams\<lparr>p_name := Some ''''\<rparr>) = agents
   \<and> filterAgents normalizeAddress toLowerCase agents (emptyParams\<lparr>p_ens := Some ''''\<rparr>) = agents
   \<and> filterAgents normalizeAddress toLowerCase agents (emptyParams\<lparr>p_did := Some ''''\<rparr>) = agents
   \<and> filterAgents normalizeAddress toLowerCase agents (emptyParams\<lparr>p_walletAddress := Some ''''\<rparr>) = agents"
proof -
  have n: "filterAgents normalizeAddress toLowerCase agents (emptyParams\<lparr>p_name := Some ''''\<rparr>) = agents"
    unfolding filterAgents_def empty_name by (simp add: passes_empty_upd)
  have e: "filterAgents normalizeAddress toLowerCase agents (emptyParams\<lparr>p_ens := Some ''''\<rparr>) = agents"
    unfolding filterAgents_def empty_ens by (simp add: passes_empty_upd)
  have d: "filterAgents normalizeAddress toLowerCase agents (emptyParams\<lparr>p_did := Some ''''\<rparr>) = agents"
    unfolding filterAgents_def empty_did by (simp add: passes_empty_upd)
  have w: "filterAgents normalizeAddress toLowerCase agents (emptyParams\<lparr>p_walletAddress := Some ''''\<rparr>) = agents"
    unfolding filterAgents_def empty_wallet by (simp add: passes_empty_upd)
  show ?thesis
    unfolding n e d w empty_name empty_ens empty_did empty_wallet by simp
qed

end
